theory Spec2Isabelle
  imports Complex_Main
begin

section \<open>Double-precision arithmetic\<close>

text \<open>
  The program computes with C \<^verbatim>\<open>double\<close>. The model is IEEE 754 binary64 with
  round-to-nearest, ties-to-even, every operation rounded on its own (no extended
  intermediate precision, no fused multiply-add).

  A double is a NaN, an infinity with its sign, or a finite value
  \<^verbatim>\<open>(-1)^s * m * 2^e\<close>. Every operation returns the finite values in one
  canonical form: the mantissa is odd, or the value is a signed zero \<^verbatim>\<open>DFin s 0 0\<close>.
  So \<^verbatim>\<open>1.0\<close> is \<^verbatim>\<open>DFin False 1 0\<close> and \<^verbatim>\<open>-2.0\<close> is \<^verbatim>\<open>DFin True 1 1\<close>.
  The operations accept any triple and read it by its value.
\<close>

datatype double = DNaN | DInf bool | DFin bool nat int

fun bit_length :: "nat \<Rightarrow> nat" where
  "bit_length n = (if n = 0 then 0 else Suc (bit_length (n div 2)))"

declare bit_length.simps [simp del]

text \<open>The integer nearest to \<^verbatim>\<open>n / d\<close>, a tie going to the even neighbour;
  \<^verbatim>\<open>q\<close> and \<^verbatim>\<open>r\<close> are quotient and remainder.\<close>

definition round_pick :: "nat \<Rightarrow> nat \<Rightarrow> nat \<Rightarrow> nat" where
  "round_pick d q r = (if d < 2 * r \<or> (2 * r = d \<and> odd q) then q + 1 else q)"

definition round_even :: "nat \<Rightarrow> nat \<Rightarrow> nat" where
  "round_even n d = round_pick d (n div d) (n mod d)"

text \<open>The binary exponent \<^verbatim>\<open>floor (log2 (p / q))\<close> of a positive ratio: the
  difference of the bit lengths, or one less.\<close>

definition ilog2_adjust :: "nat \<Rightarrow> nat \<Rightarrow> int \<Rightarrow> int" where
  "ilog2_adjust p q l = (if q * 2 ^ nat l \<le> p * 2 ^ nat (- l) then l else l - 1)"

definition ilog2 :: "nat \<Rightarrow> nat \<Rightarrow> int" where
  "ilog2 p q = ilog2_adjust p q (int (bit_length p) - int (bit_length q))"

text \<open>Dropping the trailing zero bits of a mantissa gives the canonical form.\<close>

function trim :: "bool \<Rightarrow> nat \<Rightarrow> int \<Rightarrow> double" where
  "trim s m ex =
     (if m = 0 then DFin s 0 0
      else if even m then trim s (m div 2) (ex + 1)
      else DFin s m ex)"
  by pat_completeness auto
termination
  by (relation "measure (\<lambda>(s, m, ex). m)") auto

declare trim.simps [simp del]

text \<open>
  A 53-bit mantissa \<^verbatim>\<open>m\<close> at exponent \<^verbatim>\<open>ex\<close>: the largest finite double is
  \<^verbatim>\<open>(2^53 - 1) * 2^971\<close>, beyond it the result is an infinity. Rounding up to
  \<^verbatim>\<open>2^53\<close> carries into the exponent. The exponent never goes below
  \<^verbatim>\<open>-1074\<close>, which gives the subnormal numbers and underflow to zero.
\<close>

definition pack :: "bool \<Rightarrow> nat \<Rightarrow> int \<Rightarrow> double" where
  "pack s m ex = (if 971 < ex then DInf s else trim s m ex)"

definition renormalise :: "bool \<Rightarrow> nat \<Rightarrow> int \<Rightarrow> double" where
  "renormalise s m ex = (if m = 2 ^ 53 then pack s (2 ^ 52) (ex + 1) else pack s m ex)"

definition round_at :: "bool \<Rightarrow> nat \<Rightarrow> nat \<Rightarrow> int \<Rightarrow> double" where
  "round_at s P Q ex = renormalise s (round_even (P * 2 ^ nat (- ex)) (Q * 2 ^ nat ex)) ex"

definition round_ratio :: "bool \<Rightarrow> nat \<Rightarrow> nat \<Rightarrow> double" where
  "round_ratio s P Q = round_at s P Q (max (ilog2 P Q - 52) (- 1074))"

text \<open>The double nearest to \<^verbatim>\<open>(-1)^s * (p / q) * 2^e\<close>, for \<^verbatim>\<open>q > 0\<close>.\<close>

definition round_to_double :: "bool \<Rightarrow> nat \<Rightarrow> nat \<Rightarrow> int \<Rightarrow> double" where
  "round_to_double s p q e =
     (if p = 0 then DFin s 0 0
      else round_ratio s (p * 2 ^ nat e) (q * 2 ^ nat (- e)))"

text \<open>The signed mantissa of a finite double, scaled to the exponent \<^verbatim>\<open>e0 \<le> e\<close>.\<close>

definition aligned :: "bool \<Rightarrow> nat \<Rightarrow> int \<Rightarrow> int \<Rightarrow> int" where
  "aligned s m e e0 = (if s then - int m else int m) * 2 ^ nat (e - e0)"

definition round_sum :: "bool \<Rightarrow> int \<Rightarrow> int \<Rightarrow> double" where
  "round_sum s0 k e0 =
     (if k = 0 then DFin s0 0 0 else round_to_double (k < 0) (nat \<bar>k\<bar>) 1 e0)"

fun fneg :: "double \<Rightarrow> double" where
  "fneg DNaN = DNaN"
| "fneg (DInf s) = DInf (\<not> s)"
| "fneg (DFin s m e) = DFin (\<not> s) m e"

fun fabs :: "double \<Rightarrow> double" where
  "fabs DNaN = DNaN"
| "fabs (DInf s) = DInf False"
| "fabs (DFin s m e) = DFin False m e"

fun isnan :: "double \<Rightarrow> bool" where
  "isnan DNaN = True"
| "isnan _ = False"

fun isinf :: "double \<Rightarrow> bool" where
  "isinf (DInf s) = True"
| "isinf _ = False"

text \<open>\<^verbatim>\<open>a < b\<close>: false as soon as one side is a NaN; the two zeros are equal.\<close>

fun flt :: "double \<Rightarrow> double \<Rightarrow> bool" where
  "flt DNaN _ = False"
| "flt _ DNaN = False"
| "flt (DInf s) (DInf t) = (s \<and> \<not> t)"
| "flt (DInf s) (DFin t m e) = s"
| "flt (DFin s m e) (DInf t) = (\<not> t)"
| "flt (DFin s1 m1 e1) (DFin s2 m2 e2) =
     (aligned s1 m1 e1 (min e1 e2) < aligned s2 m2 e2 (min e1 e2))"

definition fgt :: "double \<Rightarrow> double \<Rightarrow> bool" where
  "fgt a b = flt b a"

text \<open>An exact zero sum is \<^verbatim>\<open>-0\<close> only when both operands are negative.\<close>

fun fadd :: "double \<Rightarrow> double \<Rightarrow> double" where
  "fadd DNaN _ = DNaN"
| "fadd _ DNaN = DNaN"
| "fadd (DInf s) (DInf t) = (if s = t then DInf s else DNaN)"
| "fadd (DInf s) (DFin t m e) = DInf s"
| "fadd (DFin s m e) (DInf t) = DInf t"
| "fadd (DFin s1 m1 e1) (DFin s2 m2 e2) =
     round_sum (s1 \<and> s2)
       (aligned s1 m1 e1 (min e1 e2) + aligned s2 m2 e2 (min e1 e2)) (min e1 e2)"

definition fsub :: "double \<Rightarrow> double \<Rightarrow> double" where
  "fsub a b = fadd a (fneg b)"

fun fmul :: "double \<Rightarrow> double \<Rightarrow> double" where
  "fmul DNaN _ = DNaN"
| "fmul _ DNaN = DNaN"
| "fmul (DInf s) (DInf t) = DInf (s \<noteq> t)"
| "fmul (DInf s) (DFin t m e) = (if m = 0 then DNaN else DInf (s \<noteq> t))"
| "fmul (DFin s m e) (DInf t) = (if m = 0 then DNaN else DInf (s \<noteq> t))"
| "fmul (DFin s1 m1 e1) (DFin s2 m2 e2) = round_to_double (s1 \<noteq> s2) (m1 * m2) 1 (e1 + e2)"

fun fdiv :: "double \<Rightarrow> double \<Rightarrow> double" where
  "fdiv DNaN _ = DNaN"
| "fdiv _ DNaN = DNaN"
| "fdiv (DInf s) (DInf t) = DNaN"
| "fdiv (DInf s) (DFin t m e) = DInf (s \<noteq> t)"
| "fdiv (DFin s m e) (DInf t) = DFin (s \<noteq> t) 0 0"
| "fdiv (DFin s1 m1 e1) (DFin s2 m2 e2) =
     (if m2 = 0 then (if m1 = 0 then DNaN else DInf (s1 \<noteq> s2))
      else round_to_double (s1 \<noteq> s2) m1 m2 (e1 - e2))"

definition double_of_nat :: "nat \<Rightarrow> double" where
  "double_of_nat n = round_to_double False n 1 0"

text \<open>The literals of the source: \<^verbatim>\<open>0.0\<close>, \<^verbatim>\<open>1.0\<close>, \<^verbatim>\<open>1e-10\<close> (the double nearest
  to \<^verbatim>\<open>1 / 10^10\<close>) and \<^verbatim>\<open>1e6\<close>.\<close>

definition d_zero :: double where
  "d_zero = DFin False 0 0"

definition d_one :: double where
  "d_one = double_of_nat 1"

definition epsilon :: double where
  "epsilon = round_to_double False 1 (10 ^ 10) 0"

definition max_magnitude :: double where
  "max_magnitude = double_of_nat 1000000"

text \<open>What the claims say about doubles: being finite, and the real number a finite
  double stands for.\<close>

definition is_finite :: "double \<Rightarrow> bool" where
  "is_finite v = (\<not> isnan v \<and> \<not> isinf v)"

fun valof :: "double \<Rightarrow> real" where
  "valof (DFin s m e) = (if s then - 1 else 1) * real m * 2 powi e"
| "valof _ = 0"

section \<open>The data of the program\<close>

text \<open>
  \<^verbatim>\<open>Corners\<close> and \<^verbatim>\<open>Matrix3x3\<close> are declared in \<^verbatim>\<open>perspectivetransform.h\<close>.
  Modelled from the spec: the header is not among the sources. \<^verbatim>\<open>Corners\<close> holds the
  four points in the order top-left, top-right, bottom-right, bottom-left, with the
  field names the source reads; \<^verbatim>\<open>Matrix3x3\<close> holds nine doubles \<^verbatim>\<open>m00..m22\<close> in
  row-major order, the order in which the source's positional initialisers fill them.
\<close>

record Corners =
  tl_x :: double
  tl_y :: double
  tr_x :: double
  tr_y :: double
  br_x :: double
  br_y :: double
  bl_x :: double
  bl_y :: double

record Matrix3x3 =
  m00 :: double
  m01 :: double
  m02 :: double
  m10 :: double
  m11 :: double
  m12 :: double
  m20 :: double
  m21 :: double
  m22 :: double

section \<open>solve_linear_system\<close>

text \<open>
  The C function returns 1 or 0 and writes the solution through \<^verbatim>\<open>x\<close>. It has three
  \<^verbatim>\<open>return 0\<close>, told apart here by the status; \<^verbatim>\<open>return_code\<close> is what the caller
  sees. The model returns the status and the contents of \<^verbatim>\<open>x\<close> at the return, which
  on a failure in back substitution holds the entries written so far.
\<close>

datatype solver_status = Solved | SingularMatrix | ZeroPivot | InvalidSolution

fun return_code :: "solver_status \<Rightarrow> int" where
  "return_code Solved = 1"
| "return_code _ = 0"

text \<open>
  \<^verbatim>\<open>aug[i][j] = A[i][j]; aug[i][n] = b[i]\<close> for all rows: the augmented matrix has
  8 rows and 9 meaningful columns (the tenth column of the C array is never read or
  written).
\<close>

definition init_aug :: "double list list \<Rightarrow> double list \<Rightarrow> double list list" where
  "init_aug A b = map (\<lambda>i. map (\<lambda>j. A ! i ! j) [0..<8] @ [b ! i]) [0..<8]"

text \<open>The pivot search: \<^verbatim>\<open>max_row\<close> and \<^verbatim>\<open>max_val\<close> are the state of the loop over
  \<^verbatim>\<open>k = i + 1 .. 7\<close>.\<close>

definition pivot_step :: "double list list \<Rightarrow> nat \<Rightarrow> nat \<Rightarrow> nat \<times> double \<Rightarrow> nat \<times> double" where
  "pivot_step aug i k st =
     (if fgt (fabs (aug ! k ! i)) (snd st) then (k, fabs (aug ! k ! i)) else st)"

definition find_pivot :: "double list list \<Rightarrow> nat \<Rightarrow> nat \<times> double" where
  "find_pivot aug i = fold (pivot_step aug i) [i + 1..<8] (i, fabs (aug ! i ! i))"

definition set_entry :: "nat \<Rightarrow> nat \<Rightarrow> double \<Rightarrow> double list list \<Rightarrow> double list list" where
  "set_entry i j v A = A[i := (A ! i)[j := v]]"

text \<open>\<^verbatim>\<open>temp = aug[i][j]; aug[i][j] = aug[max_row][j]; aug[max_row][j] = temp\<close>
  for \<^verbatim>\<open>j = 0 .. 8\<close>, when \<^verbatim>\<open>max_row != i\<close>.\<close>

definition swap_entry :: "nat \<Rightarrow> nat \<Rightarrow> nat \<Rightarrow> double list list \<Rightarrow> double list list" where
  "swap_entry i max_row j aug =
     set_entry max_row j (aug ! i ! j) (set_entry i j (aug ! max_row ! j) aug)"

definition swap_rows :: "nat \<Rightarrow> nat \<Rightarrow> double list list \<Rightarrow> double list list" where
  "swap_rows i max_row aug =
     (if max_row \<noteq> i then fold (swap_entry i max_row) [0..<9] aug else aug)"

text \<open>\<^verbatim>\<open>aug[j][k] -= factor * aug[i][k]\<close> for \<^verbatim>\<open>k = i .. 8\<close>, with
  \<^verbatim>\<open>factor = aug[j][i] / aug[i][i]\<close> computed before the loop, for the rows
  \<^verbatim>\<open>j = i + 1 .. 7\<close>.\<close>

definition elim_entry :: "nat \<Rightarrow> nat \<Rightarrow> double \<Rightarrow> nat \<Rightarrow> double list list \<Rightarrow> double list list" where
  "elim_entry i j factor k aug =
     set_entry j k (fsub (aug ! j ! k) (fmul factor (aug ! i ! k))) aug"

definition elim_row :: "nat \<Rightarrow> nat \<Rightarrow> double list list \<Rightarrow> double list list" where
  "elim_row i j aug = fold (elim_entry i j (fdiv (aug ! j ! i) (aug ! i ! i))) [i..<9] aug"

definition eliminate :: "nat \<Rightarrow> double list list \<Rightarrow> double list list" where
  "eliminate i aug = fold (elim_row i) [i + 1..<8] aug"

text \<open>One round of the elimination loop; \<^verbatim>\<open>None\<close> is the \<^verbatim>\<open>return 0\<close> of the
  singularity check.\<close>

definition forward_step :: "nat \<Rightarrow> double list list \<Rightarrow> double list list option" where
  "forward_step i aug =
     (case find_pivot aug i of
        (max_row, max_val) \<Rightarrow>
          if flt max_val epsilon then None
          else Some (eliminate i (swap_rows i max_row aug)))"

function forward_elimination :: "nat \<Rightarrow> double list list \<Rightarrow> double list list option" where
  "forward_elimination i aug =
     (if i < 8 then
        (case forward_step i aug of
           None \<Rightarrow> None
         | Some aug' \<Rightarrow> forward_elimination (i + 1) aug')
      else Some aug)"
  by pat_completeness auto
termination
  by (relation "measure (\<lambda>(i, aug). 8 - i)") auto

declare forward_elimination.simps [simp del]

text \<open>
  Back substitution, \<^verbatim>\<open>i = 7\<close> down to \<^verbatim>\<open>0\<close>; the second argument counts the rows
  still to do, so the row in hand is \<^verbatim>\<open>i\<close> at \<^verbatim>\<open>Suc i\<close>. \<^verbatim>\<open>solve_row\<close> is
  \<^verbatim>\<open>x[i] = aug[i][n]\<close>, then \<^verbatim>\<open>x[i] -= aug[i][j] * x[j]\<close> for \<^verbatim>\<open>j = i + 1 .. 7\<close>,
  then \<^verbatim>\<open>x[i] /= aug[i][i]\<close>.
\<close>

definition subst_entry :: "double list list \<Rightarrow> nat \<Rightarrow> nat \<Rightarrow> double list \<Rightarrow> double list" where
  "subst_entry aug i j x = x[i := fsub (x ! i) (fmul (aug ! i ! j) (x ! j))]"

definition divide_entry :: "double list list \<Rightarrow> nat \<Rightarrow> double list \<Rightarrow> double list" where
  "divide_entry aug i x = x[i := fdiv (x ! i) (aug ! i ! i)]"

definition solve_row :: "double list list \<Rightarrow> nat \<Rightarrow> double list \<Rightarrow> double list" where
  "solve_row aug i x =
     divide_entry aug i (fold (subst_entry aug i) [i + 1..<8] (x[i := aug ! i ! 8]))"

fun back_substitution :: "double list list \<Rightarrow> nat \<Rightarrow> double list \<Rightarrow> solver_status \<times> double list" where
  "back_substitution aug 0 x = (Solved, x)"
| "back_substitution aug (Suc i) x =
     (if flt (fabs (aug ! i ! i)) epsilon then (ZeroPivot, x)
      else if isnan (solve_row aug i x ! i) \<or> isinf (solve_row aug i x ! i)
        then (InvalidSolution, solve_row aug i x)
        else back_substitution aug i (solve_row aug i x))"

definition solve_linear_system ::
  "double list list \<Rightarrow> double list \<Rightarrow> double list \<Rightarrow> solver_status \<times> double list" where
  "solve_linear_system A b x =
     (case forward_elimination 0 (init_aug A b) of
        None \<Rightarrow> (SingularMatrix, x)
      | Some aug \<Rightarrow> back_substitution aug 8 x)"

subsection \<open>The call through pointers\<close>






section \<open>calculate_perspective_transform\<close>

text \<open>
  The function returns a pointer, either to the static \<^verbatim>\<open>identity\<close> or to a fresh
  \<^verbatim>\<open>Matrix3x3\<close>; the model returns the matrix pointed to (the allocation is taken to
  succeed). A null pointer argument is \<^verbatim>\<open>None\<close>.
\<close>

definition identity :: Matrix3x3 where
  "identity =
     \<lparr>m00 = d_one, m01 = d_zero, m02 = d_zero,
      m10 = d_zero, m11 = d_one, m12 = d_zero,
      m20 = d_zero, m21 = d_zero, m22 = d_one\<rparr>"

definition coordinates :: "Corners \<Rightarrow> double list" where
  "coordinates c = [tl_x c, tl_y c, tr_x c, tr_y c, br_x c, br_y c, bl_x c, bl_y c]"

text \<open>The \<^verbatim>\<open>switch (i)\<close>: the source and destination point of correspondence
  \<^verbatim>\<open>i\<close>, as \<^verbatim>\<open>(srcX, srcY, dstX, dstY)\<close>; the four variables start at \<^verbatim>\<open>0.0\<close>.\<close>

fun src_dst :: "Corners \<Rightarrow> Corners \<Rightarrow> nat \<Rightarrow> double \<times> double \<times> double \<times> double" where
  "src_dst s d 0 = (tl_x s, tl_y s, tl_x d, tl_y d)"
| "src_dst s d (Suc 0) = (tr_x s, tr_y s, tr_x d, tr_y d)"
| "src_dst s d (Suc (Suc 0)) = (br_x s, br_y s, br_x d, br_y d)"
| "src_dst s d (Suc (Suc (Suc 0))) = (bl_x s, bl_y s, bl_x d, bl_y d)"
| "src_dst s d (Suc (Suc (Suc (Suc i)))) = (d_zero, d_zero, d_zero, d_zero)"

fun has_inf :: "double \<times> double \<times> double \<times> double \<Rightarrow> bool" where
  "has_inf (srcX, srcY, dstX, dstY) = (isinf srcX \<or> isinf srcY \<or> isinf dstX \<or> isinf dstY)"

text \<open>The twelve assignments of one round, in the order of the source;
  \<^verbatim>\<open>-srcX * dstX\<close> negates first and multiplies then.\<close>

fun fill_rows ::
  "nat \<Rightarrow> double \<times> double \<times> double \<times> double \<Rightarrow> double list list \<times> double list
     \<Rightarrow> double list list \<times> double list" where
  "fill_rows i (srcX, srcY, dstX, dstY) (A, b) =
     ((set_entry (i + 4) 7 (fmul (fneg srcY) dstY)
       \<circ> set_entry (i + 4) 6 (fmul (fneg srcX) dstY)
       \<circ> set_entry (i + 4) 5 d_one
       \<circ> set_entry (i + 4) 4 srcY
       \<circ> set_entry (i + 4) 3 srcX
       \<circ> set_entry i 7 (fmul (fneg srcY) dstX)
       \<circ> set_entry i 6 (fmul (fneg srcX) dstX)
       \<circ> set_entry i 2 d_one
       \<circ> set_entry i 1 srcY
       \<circ> set_entry i 0 srcX) A,
      b[i := dstX, i + 4 := dstY])"

text \<open>The set-up loop over \<^verbatim>\<open>i = 0 .. 3\<close>; \<^verbatim>\<open>None\<close> is the
  \<^verbatim>\<open>return &identity\<close> of the infinity check.\<close>

fun setup_equations ::
  "Corners \<Rightarrow> Corners \<Rightarrow> nat list \<Rightarrow> double list list \<times> double list
     \<Rightarrow> (double list list \<times> double list) option" where
  "setup_equations src dst [] Ab = Some Ab"
| "setup_equations src dst (i # is) Ab =
     (if has_inf (src_dst src dst i) then None
      else setup_equations src dst is (fill_rows i (src_dst src dst i) Ab))"

definition zero_system :: "double list list \<times> double list" where
  "zero_system = (replicate 8 (replicate 8 d_zero), replicate 8 d_zero)"

definition assemble :: "double list \<Rightarrow> Matrix3x3" where
  "assemble x =
     \<lparr>m00 = x ! 0, m01 = x ! 1, m02 = x ! 2,
      m10 = x ! 3, m11 = x ! 4, m12 = x ! 5,
      m20 = x ! 6, m21 = x ! 7, m22 = d_one\<rparr>"

definition entries :: "Matrix3x3 \<Rightarrow> double list" where
  "entries m = [m00 m, m01 m, m02 m, m10 m, m11 m, m12 m, m20 m, m21 m, m22 m]"

definition free_entries :: "Matrix3x3 \<Rightarrow> double list" where
  "free_entries m = [m00 m, m01 m, m02 m, m10 m, m11 m, m12 m, m20 m, m21 m]"

text \<open>\<^verbatim>\<open>isnan(x[i]) || isinf(x[i]) || fabs(x[i]) > 1e6\<close>.\<close>

definition invalid_value :: "double \<Rightarrow> bool" where
  "invalid_value v = (isnan v \<or> isinf v \<or> fgt (fabs v) max_magnitude)"

definition calculate_perspective_transform :: "Corners option \<Rightarrow> Corners option \<Rightarrow> Matrix3x3" where
  "calculate_perspective_transform src_corners dst_corners =
     (case (src_corners, dst_corners) of
        (Some src, Some dst) \<Rightarrow>
          if list_ex isnan (coordinates src @ coordinates dst) then identity
          else
            (case setup_equations src dst [0..<4] zero_system of
               None \<Rightarrow> identity
             | Some (A, b) \<Rightarrow>
                 (case solve_linear_system A b (replicate 8 d_zero) of
                    (status, x) \<Rightarrow>
                      if return_code status = 0 then identity
                      else if list_ex (\<lambda>i. invalid_value (x ! i)) [0..<8] then identity
                      else if list_ex isnan (entries (assemble x))
                              \<or> list_ex isinf (entries (assemble x)) then identity
                      else assemble x))
      | _ \<Rightarrow> identity)"

section \<open>Inputs used as examples\<close>

definition unit_square :: Corners where
  "unit_square =
     \<lparr>tl_x = double_of_nat 0, tl_y = double_of_nat 0,
      tr_x = double_of_nat 1, tr_y = double_of_nat 0,
      br_x = double_of_nat 1, br_y = double_of_nat 1,
      bl_x = double_of_nat 0, bl_y = double_of_nat 1\<rparr>"

definition double_square :: Corners where
  "double_square =
     \<lparr>tl_x = double_of_nat 0, tl_y = double_of_nat 0,
      tr_x = double_of_nat 2, tr_y = double_of_nat 0,
      br_x = double_of_nat 2, br_y = double_of_nat 2,
      bl_x = double_of_nat 0, bl_y = double_of_nat 2\<rparr>"

definition collinear_points :: Corners where
  "collinear_points =
     \<lparr>tl_x = double_of_nat 0, tl_y = double_of_nat 0,
      tr_x = double_of_nat 1, tr_y = double_of_nat 0,
      br_x = double_of_nat 2, br_y = double_of_nat 0,
      bl_x = double_of_nat 3, bl_y = double_of_nat 0\<rparr>"



text \<open>The system the source builds for the unit square and the doubled square.\<close>

definition example_system :: "double list list \<times> double list" where
  "example_system =
     (case setup_equations unit_square double_square [0..<4] zero_system of
        Some Ab \<Rightarrow> Ab
      | None \<Rightarrow> zero_system)"


section \<open>Evaluation\<close>

text \<open>Rewrite rules that run the definitions on concrete inputs: each fires only when
  its condition is decided, so that arguments are evaluated before a function is
  unfolded.\<close>

lemma bit_length_0: "bit_length 0 = 0"
  by (simp add: bit_length.simps)

lemma bit_length_pos: "n \<noteq> 0 \<Longrightarrow> bit_length n = Suc (bit_length (n div 2))"
  by (subst bit_length.simps) simp

lemma trim_0: "trim s 0 ex = DFin s 0 0"
  by (simp add: trim.simps)

lemma trim_even: "m \<noteq> 0 \<Longrightarrow> even m \<Longrightarrow> trim s m ex = trim s (m div 2) (ex + 1)"
  by (subst trim.simps) simp

lemma trim_odd: "odd m \<Longrightarrow> trim s m ex = DFin s m ex"
  by (subst trim.simps) auto

lemmas fl_eval =
  trim_0 trim_even trim_odd bit_length_0 bit_length_pos round_pick_def round_even_def
  ilog2_adjust_def ilog2_def pack_def renormalise_def round_at_def round_ratio_def
  round_to_double_def aligned_def round_sum_def double_of_nat_def fsub_def fgt_def
  d_zero_def d_one_def epsilon_def max_magnitude_def

lemma upt_step: "i < j \<Longrightarrow> [i..<j] = i # [Suc i..<j]"
  by (rule upt_conv_Cons)

lemma upt_stop: "\<not> i < j \<Longrightarrow> [i..<j] = []"
  by simp

lemma update_numeral: "(x # xs)[numeral v := y] = x # xs[numeral v - 1 := y]"
  by (simp add: numeral_eq_Suc)

lemma replicate8: "replicate 8 x = [x, x, x, x, x, x, x, x]"
  by (simp add: numeral_eq_Suc)

lemmas ix_eval = upt_step upt_stop update_numeral replicate8

lemma forward_elimination_step:
  "i < 8 \<Longrightarrow> forward_elimination i aug =
     (case forward_step i aug of
        None \<Rightarrow> None
      | Some aug' \<Rightarrow> forward_elimination (i + 1) aug')"
  by (subst forward_elimination.simps) simp

lemma forward_elimination_stop: "\<not> i < 8 \<Longrightarrow> forward_elimination i aug = Some aug"
  by (subst forward_elimination.simps) simp

lemma back_substitution_pos:
  "0 < k \<Longrightarrow> back_substitution aug k x =
     (if flt (fabs (aug ! (k - 1) ! (k - 1))) epsilon then (ZeroPivot, x)
      else if isnan (solve_row aug (k - 1) x ! (k - 1)) \<or> isinf (solve_row aug (k - 1) x ! (k - 1))
        then (InvalidSolution, solve_row aug (k - 1) x)
        else back_substitution aug (k - 1) (solve_row aug (k - 1) x))"
  by (cases k) simp_all

lemmas loop_eval = forward_elimination_step forward_elimination_stop back_substitution_pos

lemmas alg_eval =
  init_aug_def pivot_step_def find_pivot_def set_entry_def swap_entry_def swap_rows_def
  elim_entry_def elim_row_def eliminate_def forward_step_def subst_entry_def
  divide_entry_def solve_row_def solve_linear_system_def identity_def coordinates_def
  zero_system_def assemble_def entries_def invalid_value_def
  calculate_perspective_transform_def

section \<open>Order of the doubles\<close>

lemma aligned_valof:
  assumes "e0 \<le> e"
  shows "real_of_int (aligned s m e e0) = valof (DFin s m e) * 2 powi (- e0)"
proof -
  have "(2::real) ^ nat (e - e0) = 2 powi (e - e0)"
    using assms by (simp add: power_int_def)
  also have "\<dots> = 2 powi e * 2 powi (- e0)"
    by (simp add: power_int_diff power_int_minus field_simps)
  finally show ?thesis
    by (simp add: aligned_def)
qed

lemma flt_valof:
  "flt (DFin s1 m1 e1) (DFin s2 m2 e2) \<longleftrightarrow> valof (DFin s1 m1 e1) < valof (DFin s2 m2 e2)"
proof -
  let ?e0 = "min e1 e2"
  have pos: "(0::real) < 2 powi (- ?e0)"
    by simp
  have "flt (DFin s1 m1 e1) (DFin s2 m2 e2)
          \<longleftrightarrow> real_of_int (aligned s1 m1 e1 ?e0) < real_of_int (aligned s2 m2 e2 ?e0)"
    by simp
  also have "\<dots> \<longleftrightarrow> valof (DFin s1 m1 e1) * 2 powi (- ?e0) < valof (DFin s2 m2 e2) * 2 powi (- ?e0)"
    by (simp only: aligned_valof[of ?e0 e1, OF min.cobounded1] aligned_valof[of ?e0 e2, OF min.cobounded2])
  also have "\<dots> \<longleftrightarrow> valof (DFin s1 m1 e1) < valof (DFin s2 m2 e2)"
    using pos by (rule mult_less_cancel_right_pos)
  finally show ?thesis .
qed



lemma valof_fabs: "valof (fabs v) = \<bar>valof v\<bar>"
  by (cases v) (simp_all add: abs_mult)

lemma max_magnitude_value: "max_magnitude = DFin False 15625 6"
  by (simp add: fl_eval)


lemma d_one_value: "d_one = DFin False 1 0"
  by (simp add: fl_eval)

lemma magnitude_bound:
  assumes "is_finite v" "\<not> fgt (fabs v) max_magnitude"
  shows "\<bar>valof v\<bar> \<le> 1000000"
proof (cases v)
  case (DFin s m e)
  have "\<not> flt (DFin False 15625 6) (DFin False m e)"
    using assms(2) DFin by (simp add: fgt_def max_magnitude_value)
  then have "\<not> valof (DFin False 15625 6) < valof (DFin False m e)"
    unfolding flt_valof .
  then have "valof (fabs v) \<le> 1000000"
    using DFin by simp
  then show ?thesis by (simp only: valof_fabs)
qed (use assms in \<open>simp_all add: is_finite_def\<close>)

subsection \<open>Negation and rounding\<close>

lemma fneg_trim: "fneg (trim s m ex) = trim (\<not> s) m ex"
proof (induction s m ex rule: trim.induct)
  case (1 s m ex)
  show ?case
  proof (cases "m = 0")
    case True
    then show ?thesis by (simp only: trim_0 fneg.simps)
  next
    case False
    show ?thesis
    proof (cases "even m")
      case True
      have "fneg (trim s m ex) = fneg (trim s (m div 2) (ex + 1))"
        by (simp only: trim_even[OF False True])
      also have "\<dots> = trim (\<not> s) (m div 2) (ex + 1)"
        using False True by (rule "1.IH")
      also have "\<dots> = trim (\<not> s) m ex"
        by (simp only: trim_even[OF False True])
      finally show ?thesis .
    next
      case odd: False
      show ?thesis by (simp only: trim_odd[OF odd] fneg.simps)
    qed
  qed
qed

lemma fneg_pack: "fneg (pack s m ex) = pack (\<not> s) m ex"
  by (simp add: pack_def fneg_trim)

lemma fneg_renormalise: "fneg (renormalise s m ex) = renormalise (\<not> s) m ex"
  by (simp only: renormalise_def fneg_pack if_distrib[of fneg])

lemma fneg_round_to_double: "fneg (round_to_double s p q e) = round_to_double (\<not> s) p q e"
  by (simp only: round_to_double_def round_ratio_def round_at_def fneg_renormalise
        if_distrib[of fneg] fneg.simps)

lemma fmul_fneg: "fmul (fneg a) b = fneg (fmul a b)"
proof (cases a; cases b)
  fix s1 m1 e1 s2 m2 e2
  assume "a = DFin s1 m1 e1" "b = DFin s2 m2 e2"
  then show ?thesis
    by (simp only: fneg.simps fmul.simps fneg_round_to_double) auto
qed auto

section \<open>The loops of the solver, entry by entry\<close>




subsection \<open>Swapping two rows\<close>







subsection \<open>Eliminating a column\<close>











section \<open>The pivot search and one round of elimination\<close>








section \<open>The diagonal after forward elimination\<close>






section \<open>Back substitution\<close>

lemma fold_subst_entry_other:
  "r \<noteq> i \<Longrightarrow> fold (subst_entry aug i) js x ! r = x ! r"
  by (induction js arbitrary: x) (simp_all add: subst_entry_def)

lemma length_fold_subst_entry: "length (fold (subst_entry aug i) js x) = length x"
  by (induction js arbitrary: x) (simp_all add: subst_entry_def)

lemma solve_row_other: "r \<noteq> i \<Longrightarrow> solve_row aug i x ! r = x ! r"
  by (simp add: solve_row_def divide_entry_def fold_subst_entry_other)

lemma length_solve_row: "length (solve_row aug i x) = length x"
  by (simp add: solve_row_def divide_entry_def length_fold_subst_entry)

lemma back_substitution_Solved:
  "back_substitution aug k x = (Solved, x') \<Longrightarrow>
     length x' = length x \<and> (\<forall>i<k. is_finite (x' ! i)) \<and> (\<forall>i\<ge>k. x' ! i = x ! i)"
proof (induction k arbitrary: x)
  case 0
  then show ?case by simp
next
  case (Suc k)
  let ?y = "solve_row aug k x"
  from Suc.prems have fin: "is_finite (?y ! k)" and rest: "back_substitution aug k ?y = (Solved, x')"
    by (auto simp: is_finite_def split: if_splits)
  note ih = Suc.IH[OF rest]
  have "is_finite (x' ! i)" if "i < Suc k" for i
  proof (cases "i = k")
    case True
    with ih fin show ?thesis by simp
  next
    case False
    with that ih show ?thesis by simp
  qed
  moreover have "x' ! i = x ! i" if "Suc k \<le> i" for i
    using ih that by (simp add: solve_row_other)
  ultimately show ?case
    using ih by (simp add: length_solve_row)
qed


section \<open>The checks on the input\<close>

lemma setup_equations_None_iff:
  "setup_equations src dst js Ab = None \<longleftrightarrow> (\<exists>i\<in>set js. has_inf (src_dst src dst i))"
  by (induction js arbitrary: Ab) auto

lemma upt_0_4: "[0..<4] = [0, Suc 0, Suc (Suc 0), Suc (Suc (Suc 0))]"
  by (simp add: upt_rec)

lemma setup_fails_on_inf:
  "list_ex isinf (coordinates src @ coordinates dst) \<Longrightarrow> setup_equations src dst [0..<4] Ab = None"
  unfolding setup_equations_None_iff upt_0_4 by (auto simp: coordinates_def)

lemma setup_fails_only_on_inf:
  "setup_equations src dst [0..<4] Ab = None \<Longrightarrow> list_ex isinf (coordinates src @ coordinates dst)"
  unfolding setup_equations_None_iff upt_0_4 by (auto simp: coordinates_def)

text \<open>
  Claim C3. If the source or the destination pointer is null, or one of the 16 input
  coordinates is a NaN, or one of them is infinite, then
  \<^verbatim>\<open>calculate_perspective_transform\<close> returns exactly the identity matrix.
\<close>

theorem fallback_on_null_nan_inf:
  assumes "src_corners = None \<or> dst_corners = None
     \<or> (\<exists>src dst. src_corners = Some src \<and> dst_corners = Some dst
           \<and> (list_ex isnan (coordinates src @ coordinates dst)
                \<or> list_ex isinf (coordinates src @ coordinates dst)))"
  shows "calculate_perspective_transform src_corners dst_corners = identity"
proof (cases src_corners)
  case None
  then show ?thesis by (simp add: calculate_perspective_transform_def)
next
  case (Some src)
  note src = this
  show ?thesis
  proof (cases dst_corners)
    case None
    with src show ?thesis by (simp add: calculate_perspective_transform_def)
  next
    case (Some dst)
    with src assms
    have bad: "list_ex isnan (coordinates src @ coordinates dst)
               \<or> list_ex isinf (coordinates src @ coordinates dst)"
      by auto
    show ?thesis
    proof (cases "list_ex isnan (coordinates src @ coordinates dst)")
      case True
      with src Some show ?thesis by (simp add: calculate_perspective_transform_def)
    next
      case False
      with bad have "setup_equations src dst [0..<4] zero_system = None"
        by (blast intro: setup_fails_on_inf)
      with src Some show ?thesis by (simp add: calculate_perspective_transform_def)
    qed
  qed
qed

text \<open>The unit square with an infinite coordinate, mapped to the doubled square.\<close>

theorem fallback_on_null_nan_inf_witness:
  "list_ex isinf (coordinates (unit_square\<lparr>br_y := DInf True\<rparr>) @ coordinates double_square)
   \<and> calculate_perspective_transform (Some (unit_square\<lparr>br_y := DInf True\<rparr>)) (Some double_square)
       = identity"
  using fallback_on_null_nan_inf
    [of "Some (unit_square\<lparr>br_y := DInf True\<rparr>)" "Some double_square"]
  by (simp add: coordinates_def unit_square_def)

section \<open>The example system, evaluated\<close>

lemmas run_eval = fl_eval ix_eval alg_eval loop_eval

lemma setup_example:
  "setup_equations unit_square double_square [0..<4] zero_system = Some example_system"
proof -
  have "\<not> list_ex isinf (coordinates unit_square @ coordinates double_square)"
    by (simp add: unit_square_def double_square_def coordinates_def fl_eval)
  then have "setup_equations unit_square double_square [0..<4] zero_system \<noteq> None"
    using setup_fails_only_on_inf by blast
  then show ?thesis
    by (auto simp: example_system_def)
qed

lemma example_system_value:
  "example_system =
     ([[d_zero, d_zero, d_one, d_zero, d_zero, d_zero, fneg d_zero, fneg d_zero],
       [d_one, d_zero, d_one, d_zero, d_zero, d_zero, fneg (double_of_nat 2), fneg d_zero],
       [d_one, d_one, d_one, d_zero, d_zero, d_zero, fneg (double_of_nat 2), fneg (double_of_nat 2)],
       [d_zero, d_one, d_one, d_zero, d_zero, d_zero, fneg d_zero, fneg d_zero],
       [d_zero, d_zero, d_zero, d_zero, d_zero, d_one, fneg d_zero, fneg d_zero],
       [d_zero, d_zero, d_zero, d_one, d_zero, d_one, fneg d_zero, fneg d_zero],
       [d_zero, d_zero, d_zero, d_one, d_one, d_one, fneg (double_of_nat 2), fneg (double_of_nat 2)],
       [d_zero, d_zero, d_zero, d_zero, d_one, d_one, fneg d_zero, fneg (double_of_nat 2)]],
      [d_zero, double_of_nat 2, double_of_nat 2, d_zero, d_zero, d_zero, double_of_nat 2, double_of_nat 2])"
  by (simp add: example_system_def unit_square_def double_square_def run_eval
      del: upt_rec_numeral split del: if_split)



lemma example_solution:
  "solve_linear_system (fst example_system) (snd example_system) [x0, x1, x2, x3, x4, x5, x6, x7]
     = (Solved, [double_of_nat 2, d_zero, d_zero, d_zero, double_of_nat 2, d_zero, d_zero, d_zero])"
  by (simp add: example_system_value run_eval del: upt_rec_numeral split del: if_split)


section \<open>The solver\<close>





text \<open>
  Claim C9. Whenever \<^verbatim>\<open>solve_linear_system\<close> returns 1, each of the eight entries of
  \<^verbatim>\<open>x\<close> is finite, whatever the matrix \<^verbatim>\<open>A\<close>, the vector \<^verbatim>\<open>b\<close> and the contents of
  \<^verbatim>\<open>x\<close> before the call.
\<close>

theorem solution_is_finite:
  assumes "return_code (fst (solve_linear_system A b x)) = 1"
  shows "\<forall>i<8. is_finite (snd (solve_linear_system A b x) ! i)"
proof -
  from assms have ok: "fst (solve_linear_system A b x) = Solved"
    by (cases "fst (solve_linear_system A b x)") simp_all
  then obtain aug where "forward_elimination 0 (init_aug A b) = Some aug"
    and "back_substitution aug 8 x = (Solved, snd (solve_linear_system A b x))"
    by (cases "forward_elimination 0 (init_aug A b)")
       (auto simp: solve_linear_system_def prod_eq_iff)
  then show ?thesis
    using back_substitution_Solved by blast
qed

theorem solution_is_finite_witness:
  "return_code (fst (solve_linear_system (fst example_system) (snd example_system)
                  (replicate 8 d_zero))) = 1
   \<and> is_finite (snd (solve_linear_system (fst example_system) (snd example_system)
                  (replicate 8 d_zero)) ! 0)
   \<and> is_finite (snd (solve_linear_system (fst example_system) (snd example_system)
                  (replicate 8 d_zero)) ! 7)"
proof -
  have h: "return_code (fst (solve_linear_system (fst example_system) (snd example_system)
                  (replicate 8 d_zero))) = 1"
    by (simp add: replicate8 example_solution)
  from solution_is_finite[OF h] h show ?thesis
    by simp
qed

section \<open>The transform of the unit square onto the doubled square\<close>

text \<open>
  Claim C8. For the unit square as source and the square of side 2 as destination,
  \<^verbatim>\<open>calculate_perspective_transform\<close> returns the matrix with \<^verbatim>\<open>m00 = 2\<close>,
  \<^verbatim>\<open>m11 = 2\<close>, \<^verbatim>\<open>m22 = 1\<close> and zero elsewhere: every step of the computation is exact
  on this input, so the entries are these doubles and not only close to them.
\<close>

theorem scale_by_two:
  "calculate_perspective_transform (Some unit_square) (Some double_square) =
     \<lparr>m00 = double_of_nat 2, m01 = d_zero, m02 = d_zero,
      m10 = d_zero, m11 = double_of_nat 2, m12 = d_zero,
      m20 = d_zero, m21 = d_zero, m22 = d_one\<rparr>"
proof -
  have nan: "\<not> list_ex isnan (coordinates unit_square)"
    "\<not> list_ex isnan (coordinates double_square)"
    by (simp_all add: unit_square_def double_square_def coordinates_def fl_eval)
  show ?thesis
    unfolding calculate_perspective_transform_def
    by (simp add: nan setup_example split_beta replicate8 example_solution)
       (simp add: assemble_def entries_def invalid_value_def fl_eval upt_step upt_stop
          del: upt_rec_numeral split del: if_split)
qed

section \<open>The shape of the result\<close>

lemma upt_0_8: "[0..<8] = [0, 1, 2, 3, 4, 5, 6, 7]"
  by (simp add: upt_rec)

lemma is_finite_d_one: "is_finite d_one"
  by (simp add: d_one_value is_finite_def)

lemma is_finite_d_zero: "is_finite d_zero"
  by (simp add: d_zero_def is_finite_def)

lemma valid_value:
  "\<not> invalid_value v \<Longrightarrow> is_finite v \<and> \<bar>valof v\<bar> \<le> 1000000"
  using magnitude_bound[of v] by (auto simp: invalid_value_def is_finite_def)

lemma assemble_valid:
  assumes "\<not> list_ex (\<lambda>i. invalid_value (x ! i)) [0..<8]"
  shows "list_all is_finite (entries (assemble x)) \<and> m22 (assemble x) = d_one
         \<and> list_all (\<lambda>v. \<bar>valof v\<bar> \<le> 1000000) (free_entries (assemble x))"
  using assms
  by (simp add: upt_0_8 entries_def free_entries_def assemble_def valid_value is_finite_d_one)

lemma result_cases:
  "calculate_perspective_transform src_corners dst_corners = identity
   \<or> (\<exists>x. calculate_perspective_transform src_corners dst_corners = assemble x
          \<and> \<not> list_ex (\<lambda>i. invalid_value (x ! i)) [0..<8])"
  by (auto simp: calculate_perspective_transform_def split: option.splits prod.splits)


text \<open>
  Claim C2. Every matrix returned by \<^verbatim>\<open>calculate_perspective_transform\<close> is the
  identity matrix, or a matrix whose nine entries are finite, whose entry \<^verbatim>\<open>m22\<close> is
  exactly \<^verbatim>\<open>1.0\<close> and whose eight free entries \<^verbatim>\<open>m00 .. m21\<close> are at most
  \<^verbatim>\<open>1e6\<close> in absolute value.
\<close>

theorem result_shape:
  "calculate_perspective_transform src_corners dst_corners = identity
   \<or> (list_all is_finite (entries (calculate_perspective_transform src_corners dst_corners))
      \<and> m22 (calculate_perspective_transform src_corners dst_corners) = d_one
      \<and> list_all (\<lambda>v. \<bar>valof v\<bar> \<le> 1000000)
           (free_entries (calculate_perspective_transform src_corners dst_corners)))"
  using result_cases[of src_corners dst_corners] assemble_valid by auto

section \<open>The system of equations\<close>

lemma setup_value:
  assumes "\<not> list_ex isinf (coordinates src @ coordinates dst)"
  shows "setup_equations src dst [0..<4] zero_system =
     Some
      ([[tl_x src, tl_y src, d_one, d_zero, d_zero, d_zero,
         fneg (fmul (tl_x src) (tl_x dst)), fneg (fmul (tl_y src) (tl_x dst))],
        [tr_x src, tr_y src, d_one, d_zero, d_zero, d_zero,
         fneg (fmul (tr_x src) (tr_x dst)), fneg (fmul (tr_y src) (tr_x dst))],
        [br_x src, br_y src, d_one, d_zero, d_zero, d_zero,
         fneg (fmul (br_x src) (br_x dst)), fneg (fmul (br_y src) (br_x dst))],
        [bl_x src, bl_y src, d_one, d_zero, d_zero, d_zero,
         fneg (fmul (bl_x src) (bl_x dst)), fneg (fmul (bl_y src) (bl_x dst))],
        [d_zero, d_zero, d_zero, tl_x src, tl_y src, d_one,
         fneg (fmul (tl_x src) (tl_y dst)), fneg (fmul (tl_y src) (tl_y dst))],
        [d_zero, d_zero, d_zero, tr_x src, tr_y src, d_one,
         fneg (fmul (tr_x src) (tr_y dst)), fneg (fmul (tr_y src) (tr_y dst))],
        [d_zero, d_zero, d_zero, br_x src, br_y src, d_one,
         fneg (fmul (br_x src) (br_y dst)), fneg (fmul (br_y src) (br_y dst))],
        [d_zero, d_zero, d_zero, bl_x src, bl_y src, d_one,
         fneg (fmul (bl_x src) (bl_y dst)), fneg (fmul (bl_y src) (bl_y dst))]],
       [tl_x dst, tr_x dst, br_x dst, bl_x dst, tl_y dst, tr_y dst, br_y dst, bl_y dst])"
  using assms
  by (simp add: coordinates_def fmul_fneg fl_eval ix_eval alg_eval
      del: upt_rec_numeral split del: if_split)

text \<open>
  Claim C5. For each correspondence \<^verbatim>\<open>i\<close> in \<^verbatim>\<open>0 .. 3\<close>, with source point
  \<^verbatim>\<open>(sx, sy)\<close> and destination point \<^verbatim>\<open>(dx, dy)\<close>, the system the function builds
  has the row \<^verbatim>\<open>i\<close> equal to \<^verbatim>\<open>[sx, sy, 1, 0, 0, 0, -sx*dx, -sy*dx]\<close> with right-hand
  side \<^verbatim>\<open>dx\<close>, and the row \<^verbatim>\<open>i + 4\<close> equal to
  \<^verbatim>\<open>[0, 0, 0, sx, sy, 1, -sx*dy, -sy*dy]\<close> with right-hand side \<^verbatim>\<open>dy\<close>. The system
  is built when no coordinate is infinite. The source negates before it multiplies,
  which gives the same double as negating the product.
\<close>

theorem equation_rows:
  assumes "\<not> list_ex isinf (coordinates src @ coordinates dst)"
    and "i < 4" and "src_dst src dst i = (sx, sy, dx, dy)"
  shows "\<exists>A b. setup_equations src dst [0..<4] zero_system = Some (A, b)
     \<and> A ! i = [sx, sy, d_one, d_zero, d_zero, d_zero, fneg (fmul sx dx), fneg (fmul sy dx)]
     \<and> b ! i = dx
     \<and> A ! (i + 4) = [d_zero, d_zero, d_zero, sx, sy, d_one, fneg (fmul sx dy), fneg (fmul sy dy)]
     \<and> b ! (i + 4) = dy"
proof -
  from assms(2) consider "i = 0" | "i = 1" | "i = 2" | "i = 3"
    by linarith
  then show ?thesis
  proof cases
    case 1
    with assms(3) show ?thesis
      by (simp add: setup_value[OF assms(1)])
  next
    case 2
    with assms(3) show ?thesis
      by (simp add: setup_value[OF assms(1)])
  next
    case 3
    with assms(3) show ?thesis
      by (simp add: setup_value[OF assms(1)] numeral_2_eq_2)
  next
    case 4
    with assms(3) show ?thesis
      by (simp add: setup_value[OF assms(1)] numeral_3_eq_3)
  qed
qed

theorem equation_rows_witness:
  "\<not> list_ex isinf (coordinates unit_square @ coordinates double_square)
   \<and> src_dst unit_square double_square 2 = (d_one, d_one, double_of_nat 2, double_of_nat 2)
   \<and> (\<exists>A b. setup_equations unit_square double_square [0..<4] zero_system = Some (A, b)
         \<and> A ! 2 = [d_one, d_one, d_one, d_zero, d_zero, d_zero,
                     fneg (fmul d_one (double_of_nat 2)), fneg (fmul d_one (double_of_nat 2))]
         \<and> b ! 6 = double_of_nat 2)"
proof -
  have h1: "\<not> list_ex isinf (coordinates unit_square @ coordinates double_square)"
    by (simp add: unit_square_def double_square_def coordinates_def fl_eval)
  have h2: "(2::nat) < 4"
    by simp
  have h3: "src_dst unit_square double_square 2 = (d_one, d_one, double_of_nat 2, double_of_nat 2)"
    by (simp add: unit_square_def double_square_def numeral_2_eq_2 fl_eval)
  from equation_rows[OF h1 h2 h3] h1 h3 show ?thesis
    by auto
qed

section \<open>Collinear source points\<close>

lemma collinear_eval:
  assumes "\<not> list_ex isinf (coordinates dst)"
  shows "(case setup_equations collinear_points dst [0..<4] zero_system of
            None \<Rightarrow> None
          | Some (A, b) \<Rightarrow> Some (solve_linear_system A b x)) = Some (SingularMatrix, x)"
  using assms
  by (simp add: collinear_points_def coordinates_def fl_eval ix_eval alg_eval loop_eval
      del: upt_rec_numeral split del: if_split)

lemma collinear_singular:
  assumes "\<not> list_ex isinf (coordinates dst)"
  shows "\<exists>A b. setup_equations collinear_points dst [0..<4] zero_system = Some (A, b)
           \<and> solve_linear_system A b x = (SingularMatrix, x)"
  using collinear_eval[OF assms, of x]
  by (cases "setup_equations collinear_points dst [0..<4] zero_system") auto

lemma solver_failure_gives_identity:
  assumes "setup_equations src dst [0..<4] zero_system = Some (A, b)"
    and "return_code (fst (solve_linear_system A b (replicate 8 d_zero))) = 0"
  shows "calculate_perspective_transform (Some src) (Some dst) = identity"
  using assms by (simp add: calculate_perspective_transform_def split_beta)

text \<open>
  Claim C6. For the collinear source points \<^verbatim>\<open>(0,0), (1,0), (2,0), (3,0)\<close> and any
  destination corners with finite coordinates, the system built is singular for the
  solver, which ends with the status \<^verbatim>\<open>SingularMatrix\<close>, and
  \<^verbatim>\<open>calculate_perspective_transform\<close> returns exactly the identity matrix.
\<close>

theorem collinear_fallback:
  assumes "list_all is_finite (coordinates dst)"
  shows "calculate_perspective_transform (Some collinear_points) (Some dst) = identity
     \<and> (\<exists>A b. setup_equations collinear_points dst [0..<4] zero_system = Some (A, b)
           \<and> fst (solve_linear_system A b (replicate 8 d_zero)) = SingularMatrix)"
proof -
  from assms have "\<not> list_ex isinf (coordinates dst)"
    by (simp add: coordinates_def is_finite_def)
  from collinear_singular[OF this, of "replicate 8 d_zero"]
  obtain A b where s: "setup_equations collinear_points dst [0..<4] zero_system = Some (A, b)"
    and f: "solve_linear_system A b (replicate 8 d_zero) = (SingularMatrix, replicate 8 d_zero)"
    by blast
  from f have "return_code (fst (solve_linear_system A b (replicate 8 d_zero))) = 0"
    by simp
  with s have "calculate_perspective_transform (Some collinear_points) (Some dst) = identity"
    by (rule solver_failure_gives_identity)
  with s f show ?thesis
    by auto
qed

theorem collinear_fallback_witness:
  "list_all is_finite (coordinates double_square)
   \<and> calculate_perspective_transform (Some collinear_points) (Some double_square) = identity"
proof -
  have h: "list_all is_finite (coordinates double_square)"
    by (simp add: double_square_def coordinates_def is_finite_def fl_eval)
  from collinear_fallback[OF h] h show ?thesis
    by simp
qed

section \<open>The fallback\<close>

text \<open>
  Claim C1. \<^verbatim>\<open>calculate_perspective_transform\<close> returns a matrix for every pair of
  inputs, and the identity matrix whenever a stage fails: a null pointer, a NaN
  coordinate, an infinite coordinate met while the system is set up, a solver that
  returns 0 (for a degenerate point set, say), a solution entry that is a NaN, infinite
  or above \<^verbatim>\<open>1e6\<close> in absolute value, or a non-finite entry of the assembled matrix.
\<close>

theorem fallback_on_any_failure:
  assumes "src_corners = None \<or> dst_corners = None
     \<or> (\<exists>src dst. src_corners = Some src \<and> dst_corners = Some dst
          \<and> (list_ex isnan (coordinates src @ coordinates dst)
             \<or> setup_equations src dst [0..<4] zero_system = None
             \<or> (\<exists>A b status x.
                   setup_equations src dst [0..<4] zero_system = Some (A, b)
                   \<and> solve_linear_system A b (replicate 8 d_zero) = (status, x)
                   \<and> (return_code status = 0
                      \<or> list_ex (\<lambda>i. invalid_value (x ! i)) [0..<8]
                      \<or> list_ex isnan (entries (assemble x))
                      \<or> list_ex isinf (entries (assemble x))))))"
  shows "calculate_perspective_transform src_corners dst_corners = identity"
proof (cases src_corners)
  case None
  then show ?thesis by (simp add: calculate_perspective_transform_def)
next
  case (Some src)
  note src = this
  show ?thesis
  proof (cases dst_corners)
    case None
    with src show ?thesis by (simp add: calculate_perspective_transform_def)
  next
    case (Some dst)
    note dst = this
    from assms src dst consider
      (nan) "list_ex isnan (coordinates src @ coordinates dst)"
      | (inf) "setup_equations src dst [0..<4] zero_system = None"
      | (later) A b status x where "setup_equations src dst [0..<4] zero_system = Some (A, b)"
          "solve_linear_system A b (replicate 8 d_zero) = (status, x)"
          "return_code status = 0
             \<or> list_ex (\<lambda>i. invalid_value (x ! i)) [0..<8]
             \<or> list_ex isnan (entries (assemble x))
             \<or> list_ex isinf (entries (assemble x))"
      by auto
    then show ?thesis
    proof cases
      case nan
      with src dst show ?thesis by (simp add: calculate_perspective_transform_def)
    next
      case inf
      with src dst show ?thesis by (simp add: calculate_perspective_transform_def)
    next
      case later
      from later(3) have "(if return_code status = 0 then identity
              else if list_ex (\<lambda>i. invalid_value (x ! i)) [0..<8] then identity
              else if list_ex isnan (entries (assemble x))
                      \<or> list_ex isinf (entries (assemble x)) then identity
              else assemble x) = identity"
        by auto
      with later(1,2) src dst show ?thesis
        by (simp add: calculate_perspective_transform_def)
    qed
  qed
qed

theorem fallback_on_any_failure_witness:
  "(\<exists>A b. setup_equations collinear_points unit_square [0..<4] zero_system = Some (A, b)
         \<and> return_code (fst (solve_linear_system A b (replicate 8 d_zero))) = 0)
   \<and> calculate_perspective_transform (Some collinear_points) (Some unit_square) = identity"
proof -
  have "\<not> list_ex isinf (coordinates unit_square)"
    by (simp add: unit_square_def coordinates_def fl_eval)
  from collinear_singular[OF this, of "replicate 8 d_zero"]
  obtain A b where s: "setup_equations collinear_points unit_square [0..<4] zero_system = Some (A, b)"
    and f: "solve_linear_system A b (replicate 8 d_zero) = (SingularMatrix, replicate 8 d_zero)"
    by blast
  have r: "return_code SingularMatrix = 0"
    by simp
  have "calculate_perspective_transform (Some collinear_points) (Some unit_square) = identity"
    using s f r
    by (intro fallback_on_any_failure) blast
  with s f show ?thesis
    by auto
qed

section \<open>The solver and the memory of its caller\<close>












end
